theory Spec2Isabelle
  imports Complex_Main "HOL-Library.Sublist" "HOL-Library.Multiset"
begin

section \<open>Python primitives used by gnushark.py\<close>

text \<open>
  Strings are byte lists. The functions below embed the few Python primitives that
  the modelled methods of \<^verbatim>\<open>App\<close> rely on: the decimal rendering of an integer
  inside an f-string, and truthiness of a string and of a list.
\<close>

definition digit_char :: "nat \<Rightarrow> char" where
  "digit_char d = ''0123456789'' ! d"

fun str_nat :: "nat \<Rightarrow> string" where
  "str_nat n = (if n < 10 then [digit_char n] else str_nat (n div 10) @ [digit_char (n mod 10)])"

declare str_nat.simps [simp del]

text \<open>\<^verbatim>\<open>str(i)\<close> for a Python int, as produced by \<^verbatim>\<open>f"{i}"\<close>.\<close>

definition str_int :: "int \<Rightarrow> string" where
  "str_int i = (if i < 0 then CHR ''-'' # str_nat (nat (- i)) else str_nat (nat i))"

section \<open>ZRAM parameters: \<^verbatim>\<open>App._choose_zram_params\<close>\<close>

text \<open>
  \<^verbatim>\<open>int(ram_mib * 0.75)\<close>: the product is a double. \<open>0.75 = 3/4\<close> is a dyadic
  rational, so for every \<open>ram_mib\<close> of magnitude below \<open>2^51\<close> the product is exact,
  and \<^verbatim>\<open>int()\<close> truncates it towards zero.
\<close>

definition int_mul_075 :: "int \<Rightarrow> int" where
  "int_mul_075 r = (if 0 \<le> r then (r * 3) div 4 else - ((- r * 3) div 4))"

text \<open>The MiB size before it is rendered (the local \<^verbatim>\<open>size_mib\<close> at its last assignment).\<close>

definition zram_size_mib :: "int \<Rightarrow> int" where
  "zram_size_mib ram_mib =
     (let size_mib =
        (if ram_mib \<le> 4096 then ram_mib
         else if ram_mib \<le> 8192 then int_mul_075 ram_mib
         else if ram_mib \<le> 16384 then ram_mib div 2
         else if ram_mib \<le> 65536 then 8192
         else 16384)
      in max 256 ((size_mib div 256) * 256))"

definition zram_size_str :: "int \<Rightarrow> string" where
  "zram_size_str size_mib =
     (if size_mib mod 1024 = 0 then str_int (size_mib div 1024) @ ''G''
      else str_int size_mib @ ''M'')"

text \<open>
  \<^verbatim>\<open>_choose_zram_params\<close>; its two probes \<^verbatim>\<open>_detect_total_ram_mib()\<close> and
  \<^verbatim>\<open>_detect_cpu_count()\<close> are the arguments.
\<close>

definition choose_zram_params :: "int \<Rightarrow> int \<Rightarrow> string \<times> string \<times> int" where
  "choose_zram_params ram_mib cores =
     (let size_mib = zram_size_mib ram_mib;
          size_str = zram_size_str size_mib;
          comp = (if cores \<le> 2 then ''lzo-rle'' else (if cores \<le> 8 then ''lz4'' else ''zstd''));
          swap = (if ram_mib \<le> 8192 then 100 else (if ram_mib \<le> 16384 then 80 else 60))
      in (size_str, comp, swap))"

subsection \<open>The sizing table as the specification words it\<close>

definition spec_base_size :: "int \<Rightarrow> int" where
  "spec_base_size ram =
     (if ram \<le> 4096 then ram
      else if ram \<le> 8192 then \<lfloor>0.75 * real_of_int ram\<rfloor>
      else if ram \<le> 16384 then ram div 2
      else if ram \<le> 65536 then 8192
      else 16384)"

text \<open>Rounded down to the nearest multiple of 256, and never below 256.\<close>

definition spec_round_256 :: "int \<Rightarrow> int" where
  "spec_round_256 s = (let r = s - s mod 256 in if r < 256 then 256 else r)"

definition spec_size :: "int \<Rightarrow> int" where
  "spec_size ram = spec_round_256 (spec_base_size ram)"

definition spec_compression :: "int \<Rightarrow> string" where
  "spec_compression cores =
     (if cores \<le> 2 then ''lzo-rle'' else if cores \<le> 8 then ''lz4'' else ''zstd'')"

definition spec_swappiness :: "int \<Rightarrow> int" where
  "spec_swappiness ram = (if ram \<le> 8192 then 100 else if ram \<le> 16384 then 80 else 60)"

text \<open>
  The label of a size of \<open>n\<close> MiB: \<^verbatim>\<open><n/1024>G\<close> when \<open>n\<close> is divisible by 1024,
  else \<^verbatim>\<open><n>M\<close>.
\<close>

definition spec_label :: "int \<Rightarrow> string" where
  "spec_label n = (if 1024 dvd n then str_int (n div 1024) @ ''G'' else str_int n @ ''M'')"

subsection \<open>Reading a size label back\<close>

text \<open>The value of a decimal digit, from its code point (\<^verbatim>\<open>0\<close> is 48, \<^verbatim>\<open>9\<close> is 57).\<close>

definition digit_val :: "char \<Rightarrow> nat option" where
  "digit_val c =
     (let code = (of_char c :: nat)
      in if 48 \<le> code \<and> code \<le> 57 then Some (code - 48) else None)"

fun parse_digits :: "nat \<Rightarrow> string \<Rightarrow> nat option" where
  "parse_digits acc [] = Some acc"
| "parse_digits acc (c # cs) =
     (case digit_val c of None \<Rightarrow> None | Some d \<Rightarrow> parse_digits (acc * 10 + d) cs)"

definition parse_nat :: "string \<Rightarrow> nat option" where
  "parse_nat s = (if s = [] then None else parse_digits 0 s)"

text \<open>
  The byte count a label denotes: a non-empty run of decimal digits followed by the unit
  \<^verbatim>\<open>G\<close> (\<open>2^30\<close> bytes) or \<^verbatim>\<open>M\<close> (\<open>2^20\<close> bytes).
\<close>

definition parse_size_label :: "string \<Rightarrow> nat option" where
  "parse_size_label s =
     (if s = [] then None
      else if last s = CHR ''G'' then map_option (\<lambda>n. n * 1073741824) (parse_nat (butlast s))
      else if last s = CHR ''M'' then map_option (\<lambda>n. n * 1048576) (parse_nat (butlast s))
      else None)"

text \<open>
  The property the specification asks of a label for a machine with \<open>ram_mib\<close> MiB:
  it reads back as a byte count between 256 MiB and \<open>ram_mib\<close> MiB that is a
  multiple of 256 MiB.
\<close>

definition label_in_range :: "string \<Rightarrow> int \<Rightarrow> bool" where
  "label_in_range lbl ram_mib =
     (case parse_size_label lbl of
        None \<Rightarrow> False
      | Some b \<Rightarrow> 268435456 \<le> b \<and> int b \<le> ram_mib * 1048576 \<and> b mod 268435456 = 0)"

section \<open>Quoting, joining and line splitting\<close>

definition sq :: string where
  "sq = [CHR 0x27]"

definition dq :: string where
  "dq = [CHR 0x22]"

definition bsl :: string where
  "bsl = [CHR 0x5C]"

definition nl :: string where
  "nl = [CHR 0x0A]"

text \<open>
  \<^verbatim>\<open>shlex.quote\<close>: the empty string becomes two single quotes; a string made only of
  ASCII letters, digits and \<^verbatim>\<open>_@%+=:,./-\<close> is returned as it is; any other string is
  wrapped in single quotes, each single quote inside it replaced by the five characters
  quote, double quote, quote, double quote, quote.
\<close>

definition shlex_safe :: "char \<Rightarrow> bool" where
  "shlex_safe c =
     (c \<in> set (''abcdefghijklmnopqrstuvwxyz'' @ ''ABCDEFGHIJKLMNOPQRSTUVWXYZ''
               @ ''0123456789'' @ ''_@%+=:,./-''))"

definition shlex_quote :: "string \<Rightarrow> string" where
  "shlex_quote s =
     (if s = [] then sq @ sq
      else if list_all shlex_safe s then s
      else sq @ concat (map (\<lambda>c. if [c] = sq then sq @ dq @ sq @ dq @ sq else [c]) s) @ sq)"

text \<open>\<^verbatim>\<open>sep.join(xs)\<close>.\<close>

fun join :: "string \<Rightarrow> string list \<Rightarrow> string" where
  "join sep [] = []"
| "join sep [x] = x"
| "join sep (x # y # ys) = x @ sep @ join sep (y # ys)"

text \<open>
  \<^verbatim>\<open>str.strip()\<close> and \<^verbatim>\<open>str.splitlines()\<close> on ASCII text: the white space
  characters are space, tab, LF, VT, FF, CR and the four separators 0x1C to 0x1F; the
  line boundaries are LF, VT, FF, CR, CR LF and 0x1C to 0x1E. The non-ASCII white space
  and line boundaries of Unicode are outside this byte model.
\<close>

definition py_space :: "char \<Rightarrow> bool" where
  "py_space c =
     (c \<in> set [CHR 0x20, CHR 0x09, CHR 0x0A, CHR 0x0B, CHR 0x0C, CHR 0x0D,
               CHR 0x1C, CHR 0x1D, CHR 0x1E, CHR 0x1F])"

definition py_strip :: "string \<Rightarrow> string" where
  "py_strip s = rev (dropWhile py_space (rev (dropWhile py_space s)))"

definition py_linebreak :: "char \<Rightarrow> bool" where
  "py_linebreak c =
     (c \<in> set [CHR 0x0A, CHR 0x0B, CHR 0x0C, CHR 0x0D, CHR 0x1C, CHR 0x1D, CHR 0x1E])"

fun splitlines_from :: "string \<Rightarrow> string \<Rightarrow> string list" where
  "splitlines_from cur [] = (if cur = [] then [] else [cur])"
| "splitlines_from cur [c] = (if py_linebreak c then [cur] else [cur @ [c]])"
| "splitlines_from cur (c # d # cs) =
     (if c = CHR 0x0D \<and> d = CHR 0x0A then cur # splitlines_from [] cs
      else if py_linebreak c then cur # splitlines_from [] (d # cs)
      else splitlines_from (cur @ [c]) (d # cs))"

definition splitlines :: "string \<Rightarrow> string list" where
  "splitlines s = splitlines_from [] s"

text \<open>\<^verbatim>\<open>[ln.strip() for ln in out.splitlines() if ln.strip()]\<close>.\<close>

definition stripped_lines :: "string \<Rightarrow> string list" where
  "stripped_lines out = filter (\<lambda>l. l \<noteq> []) (map py_strip (splitlines out))"

section \<open>The shell, as the package queries see it\<close>

text \<open>
  Every query runs \<^verbatim>\<open>bash -lc <command>\<close>. \<^verbatim>\<open>subprocess.check_output\<close> returns
  the captured text, raises \<^verbatim>\<open>CalledProcessError\<close> (carrying the captured text) on a
  non-zero exit status, or raises something else (a decoding error, for one).
  \<^verbatim>\<open>subprocess.run(...).returncode\<close> is the exit status; bash itself is taken to be
  present, so that \<^verbatim>\<open>run\<close> returns. The shell is a function of the command, which is
  also what the \<^verbatim>\<open>lru_cache\<close> on \<^verbatim>\<open>_pkg_in_official_repos_cached\<close> makes of it.
\<close>

datatype proc_result = Output string | CalledProcessError string | OtherException

record shell =
  check_output :: "string \<Rightarrow> proc_result"
  returncode :: "string \<Rightarrow> int"

definition pkg_in_official_repos_cached :: "shell \<Rightarrow> string \<Rightarrow> bool" where
  "pkg_in_official_repos_cached sh pkg =
     (returncode sh (''pacman -Si '' @ shlex_quote pkg @ '' >/dev/null 2>&1'') = 0)"

definition which_in_official_repos_cmd :: "string list \<Rightarrow> string" where
  "which_in_official_repos_cmd plist =
     ''pacman -Si '' @ join '' '' plist @ '' 2>/dev/null | awk -F'' @ sq @ '': *'' @ sq
       @ '' '' @ sq @ ''/^Name/{print $2}'' @ sq"

definition which_in_official_repos :: "shell \<Rightarrow> string list \<Rightarrow> string set" where
  "which_in_official_repos sh pkgs =
     (let plist = map shlex_quote (filter (\<lambda>p. p \<noteq> []) pkgs) in
      if plist = [] then {}
      else (case check_output sh (which_in_official_repos_cmd plist) of
              Output out \<Rightarrow> set (stripped_lines out)
            | CalledProcessError _ \<Rightarrow> set (filter (pkg_in_official_repos_cached sh) pkgs)
            | OtherException \<Rightarrow> set (filter (pkg_in_official_repos_cached sh) pkgs)))"

section \<open>Package state: \<^verbatim>\<open>_resolve_virtual_pkgs\<close>, \<^verbatim>\<open>_missing_packages\<close>, \<^verbatim>\<open>_any_installed\<close>, \<^verbatim>\<open>_split_official_aur\<close>\<close>

text \<open>The loop of \<^verbatim>\<open>_resolve_virtual_pkgs\<close>, with the list \<^verbatim>\<open>resolved\<close> built so far.\<close>

fun resolve_loop :: "shell \<Rightarrow> string list \<Rightarrow> string list \<Rightarrow> string list" where
  "resolve_loop sh [] resolved = resolved"
| "resolve_loop sh (p # ps) resolved =
     (if p = ''vkd3d-proton'' then
        (if pkg_in_official_repos_cached sh ''vkd3d-proton''
           then resolve_loop sh ps (resolved @ [''vkd3d-proton''])
         else if pkg_in_official_repos_cached sh ''vkd3d-proton-bin''
           then resolve_loop sh ps (resolved @ [''vkd3d-proton-bin''])
         else resolve_loop sh ps (resolved @ [''vkd3d-proton-bin'']))
      else resolve_loop sh ps (resolved @ [p]))"

definition resolve_virtual_pkgs :: "shell \<Rightarrow> string list \<Rightarrow> string list" where
  "resolve_virtual_pkgs sh pkgs = resolve_loop sh pkgs []"

definition pacman_T_cmd :: "string list \<Rightarrow> string" where
  "pacman_T_cmd pkgs = ''pacman -T '' @ join '' '' (map shlex_quote pkgs)"

definition pacman_Q_cmd :: "string \<Rightarrow> string" where
  "pacman_Q_cmd p = ''pacman -Q '' @ shlex_quote p @ '' >/dev/null 2>&1''"

text \<open>The fallback loop of \<^verbatim>\<open>_missing_packages\<close>, one \<^verbatim>\<open>pacman -Q\<close> per package.\<close>

fun missing_by_query :: "shell \<Rightarrow> string list \<Rightarrow> string list \<Rightarrow> string list" where
  "missing_by_query sh [] missing = missing"
| "missing_by_query sh (p # ps) missing =
     (let rc = returncode sh (pacman_Q_cmd p)
      in missing_by_query sh ps (if rc \<noteq> 0 then missing @ [p] else missing))"

text \<open>
  \<^verbatim>\<open>_missing_packages\<close> returns the missing packages; the second component is the list
  of commands it handed to the shell, in order.
\<close>

definition missing_packages :: "shell \<Rightarrow> string list \<Rightarrow> string list \<times> string list" where
  "missing_packages sh pkgs0 =
     (let pkgs = filter (\<lambda>p. p \<noteq> []) pkgs0 in
      if pkgs = [] then ([], [])
      else (let cmd = pacman_T_cmd pkgs in
            case check_output sh cmd of
              Output out \<Rightarrow> (stripped_lines out, [cmd])
            | CalledProcessError text \<Rightarrow> (stripped_lines text, [cmd])
            | OtherException \<Rightarrow> (missing_by_query sh pkgs [], cmd # map pacman_Q_cmd pkgs)))"

definition any_installed :: "shell \<Rightarrow> string list \<Rightarrow> bool \<times> string list" where
  "any_installed sh pkgs0 =
     (let pkgs = filter (\<lambda>p. p \<noteq> []) pkgs0 in
      if pkgs = [] then (False, [])
      else (let (missing, cmds) = missing_packages sh pkgs
            in (card (set missing) < card (set pkgs), cmds)))"

text \<open>The loop of \<^verbatim>\<open>_split_official_aur\<close>, with the two lists built so far.\<close>

fun split_loop :: "string set \<Rightarrow> string list \<Rightarrow> string list \<Rightarrow> string list
    \<Rightarrow> string list \<times> string list" where
  "split_loop official_set [] official aur = (official, aur)"
| "split_loop official_set (p # ps) official aur =
     (if p \<in> official_set then split_loop official_set ps (official @ [p]) aur
      else split_loop official_set ps official (aur @ [p]))"

definition split_official_aur :: "shell \<Rightarrow> string list \<Rightarrow> string list \<times> string list" where
  "split_official_aur sh pkgs =
     (let official_set = which_in_official_repos sh pkgs
      in split_loop official_set pkgs [] [])"

section \<open>Completion sentinel: \<^verbatim>\<open>_open_terminal_and_run_pipeline\<close>\<close>

text \<open>
  \<^verbatim>\<open>f"/tmp/gnusk_done_{os.getpid()}_{int(time.time()*1000)}"\<close>. The two arguments are
  the process id and the integer \<^verbatim>\<open>int(time.time()*1000)\<close> read at the call; nothing
  else enters the path.
\<close>

definition sentinel_path :: "int \<Rightarrow> int \<Rightarrow> string" where
  "sentinel_path pid ms = ''/tmp/gnusk_done_'' @ str_int pid @ ''_'' @ str_int ms"

text \<open>
  The paths of a run of invocations in one process, given the millisecond reading of each
  invocation in order.
\<close>

definition sentinel_paths :: "int \<Rightarrow> int list \<Rightarrow> string list" where
  "sentinel_paths pid readings = map (sentinel_path pid) readings"

section \<open>Dialogs and pipelines, as a log\<close>

text \<open>
  The dialog texts are Portuguese sentences with letters outside ASCII, so each text the
  modelled methods show is named by a constructor; a constructor with an argument is a
  text with a placeholder. What a method does to the desktop is the list of events it
  causes, in order: a dialog of \<^verbatim>\<open>_error\<close>, \<^verbatim>\<open>_info\<close> or \<^verbatim>\<open>_confirm\<close> with its
  title and text, a call of \<^verbatim>\<open>_open_terminal_and_run_pipeline\<close> with its script and
  its flags \<^verbatim>\<open>need_root\<close> and \<^verbatim>\<open>ensure_policy\<close>, the removal of a file, and the two
  window calls of the watcher.
\<close>

datatype message =
    Hardware_incompativel
  | Nao_detectei_GPU_NVIDIA
  | Processador_AMD_e_nenhuma_GPU_Intel
  | Nao_detectei_GPU_Intel
  | Nao_detectei_GPU_AMD
  | AUR
  | Instalacao_de_helper_iniciada string
  | AUR_helper_ausente
  | Instalacao_abortada_por_falta_de_helper_AUR
  | Instalacao
  | Nao_foi_possivel_construir_o_script
  | Confirmar
  | Instalar_pacotes string
  | Instalar_via_Flatpak string
  | Processo_finalizado

datatype ui_event =
    Error_dialog message message
  | Info_dialog message message
  | Confirm_dialog message message
  | Run_pipeline string bool bool
  | Remove_file string
  | Deiconify
  | Present

section \<open>The sentinel watcher: \<^verbatim>\<open>_wait_sentinel_then_notify\<close>\<close>

text \<open>
  The loop of the watcher. Time is the monotonic clock in whole seconds; one round reads
  the clock, looks for the file and, when it is absent, sleeps one second. The argument
  \<open>exists_at\<close> tells at which readings the sentinel file is there. The result is whether
  the loop ended by seeing the file (the \<^verbatim>\<open>break\<close>) rather than by passing the deadline.
\<close>

function poll_sentinel :: "(nat \<Rightarrow> bool) \<Rightarrow> nat \<Rightarrow> nat \<Rightarrow> bool" where
  "poll_sentinel exists_at deadline now =
     (if now < deadline then
        (if exists_at now then True else poll_sentinel exists_at deadline (now + 1))
      else False)"
  by pat_completeness auto

termination poll_sentinel
  by (relation "measure (\<lambda>(exists_at, deadline, now). deadline - now)") auto

declare poll_sentinel.simps [simp del]

text \<open>
  The whole method, started at clock reading \<open>start\<close>: the loop inside \<^verbatim>\<open>try\<close>, then
  the \<^verbatim>\<open>finally\<close> block, which runs however the loop ended.
\<close>

definition wait_sentinel_then_notify ::
    "(nat \<Rightarrow> bool) \<Rightarrow> nat \<Rightarrow> string \<Rightarrow> bool \<Rightarrow> ui_event list" where
  "wait_sentinel_then_notify exists_at start sentinel restore_window =
     (let deadline = start + 4 * 60 * 60;
          seen = poll_sentinel exists_at deadline start
      in (if seen then [Remove_file sentinel] else [])
         @ (if restore_window then [Deiconify, Present] else [])
         @ [Info_dialog Instalacao Processo_finalizado])"

section \<open>Hardware compatibility: \<^verbatim>\<open>detect_gpu_vendors\<close>, \<^verbatim>\<open>_block_incompatible\<close>\<close>

text \<open>
  The hardware is what the four probes return: \<^verbatim>\<open>_gpu_vendors_from_lspci()\<close>,
  \<^verbatim>\<open>_gpu_vendors_from_sysfs()\<close>, \<^verbatim>\<open>_gpu_modules_present()\<close> and
  \<^verbatim>\<open>detect_cpu_vendor()\<close>.
\<close>

record hardware =
  gpu_vendors_from_lspci :: "string list"
  gpu_vendors_from_sysfs :: "string list"
  gpu_modules_present :: "string list"
  detect_cpu_vendor :: string

definition detect_gpu_vendors :: "hardware \<Rightarrow> string list" where
  "detect_gpu_vendors hw =
     (let vendors = gpu_vendors_from_lspci hw
      in if vendors = [] then gpu_vendors_from_sysfs hw else vendors)"

text \<open>The attributes of \<^verbatim>\<open>App\<close> set in \<^verbatim>\<open>__init__\<close> that the modelled methods read.\<close>

record app =
  pkg_manager :: "string option"
  cpu_vendor :: string
  gpu_vendors :: "string list"

text \<open>
  \<^verbatim>\<open>_block_incompatible\<close> returns whether the item is blocked; the second component is
  the dialog it showed. The three tests of the source follow one another; an item id
  equals at most one of the three names, so they are written as one chain.
\<close>

definition block_incompatible :: "app \<Rightarrow> hardware \<Rightarrow> string \<Rightarrow> bool \<times> ui_event list" where
  "block_incompatible self hw item_id =
     (let vendors = set (if gpu_vendors self \<noteq> [] then gpu_vendors self else detect_gpu_vendors hw)
                      \<union> set (gpu_modules_present hw);
          cpu0 = (if cpu_vendor self \<noteq> [] then cpu_vendor self else detect_cpu_vendor hw);
          cpu = (if cpu0 \<noteq> [] then cpu0 else ''desconhecido'')
      in if item_id = ''nvidia-driver'' \<and> ''nvidia'' \<notin> vendors
           then (True, [Error_dialog Hardware_incompativel Nao_detectei_GPU_NVIDIA])
         else if item_id = ''intel-mesa'' \<and> ''intel'' \<notin> vendors
           then (True, [Error_dialog Hardware_incompativel
                   (if cpu = ''amd'' then Processador_AMD_e_nenhuma_GPU_Intel
                    else Nao_detectei_GPU_Intel)])
         else if item_id = ''amd-mesa'' \<and> ''amd'' \<notin> vendors
           then (True, [Error_dialog Hardware_incompativel Nao_detectei_GPU_AMD])
         else (False, []))"

text \<open>
  The head of \<^verbatim>\<open>handle_action\<close>: the Flathub card has a flow of its own; every other
  item passes the compatibility gate first, and only an item that is not blocked reaches
  the rest of the method (package selection, the install plan and its script), whose
  events are \<open>rest\<close>.
\<close>

definition handle_action ::
    "app \<Rightarrow> hardware \<Rightarrow> string \<Rightarrow> ui_event list \<Rightarrow> ui_event list \<Rightarrow> ui_event list" where
  "handle_action self hw item_id flathub_card_flow rest =
     (if item_id = ''flathub'' then flathub_card_flow
      else (let (blocked, shown) = block_incompatible self hw item_id
            in if blocked then shown else shown @ rest))"

section \<open>The polkit policy and its wrapper: \<^verbatim>\<open>_ensure_polkit_policy\<close>\<close>

definition RUNROOT_POLICY_ID :: string where
  "RUNROOT_POLICY_ID = ''org.gnushark.runroot''"

definition RUNROOT_WRAPPER_PATH :: string where
  "RUNROOT_WRAPPER_PATH = ''/usr/libexec/gnushark-runroot''"

definition RUNROOT_POLICY_PATH :: string where
  "RUNROOT_POLICY_PATH = ''/usr/share/polkit-1/actions/'' @ RUNROOT_POLICY_ID @ ''.policy''"

definition in_dq :: "string \<Rightarrow> string" where
  "in_dq s = dq @ s @ dq"

text \<open>
  The policy descriptor. Its two translated texts, \<^verbatim>\<open>T("Executar tarefas ...")\<close> and
  \<^verbatim>\<open>T("Permitir que ...")\<close>, are the arguments. The literal ends with a line feed that
  \<^verbatim>\<open>.strip("\n")\<close> removes, so the lines are joined with no line feed at the end.
\<close>

definition policy_content :: "string \<Rightarrow> string \<Rightarrow> string" where
  "policy_content description message = join nl
     [''<?xml version='' @ in_dq ''1.0'' @ '' encoding='' @ in_dq ''UTF-8'' @ ''?>'',
      ''<!DOCTYPE policyconfig PUBLIC'',
      '' '' @ in_dq ''-//freedesktop//DTD PolicyKit Policy Configuration 1.0//EN'',
      '' '' @ in_dq ''http://www.freedesktop.org/standards/PolicyKit/1/policyconfig.dtd'' @ ''>'',
      ''<policyconfig>'',
      ''  <action id='' @ in_dq RUNROOT_POLICY_ID @ ''>'',
      ''    <description>'' @ description @ ''</description>'',
      ''    <message>'' @ message @ ''</message>'',
      ''    <icon_name>applications-games</icon_name>'',
      ''    <defaults>'',
      ''      <allow_any>auth_admin_keep</allow_any>'',
      ''      <allow_inactive>auth_admin_keep</allow_inactive>'',
      ''      <allow_active>auth_admin_keep</allow_active>'',
      ''    </defaults>'',
      ''    <annotate key='' @ in_dq ''org.freedesktop.policykit.exec.path'' @ ''>''
         @ RUNROOT_WRAPPER_PATH @ ''</annotate>'',
      ''    <annotate key='' @ in_dq ''org.freedesktop.policykit.exec.allow_gui'' @ ''>true</annotate>'',
      ''  </action>'',
      ''</policyconfig>'']"

text \<open>
  The wrapper script. Its comment line holds the word \<^verbatim>\<open>execucao\<close> written with a
  cedilla and a tilde, two bytes each in UTF-8.
\<close>

definition wrapper_content :: string where
  "wrapper_content = join nl
     [''#!/bin/sh'',
      ''# Wrapper minimalista para execu'' @ [CHR 0xC3, CHR 0xA7, CHR 0xC3, CHR 0xA3]
         @ ''o root via polkit'',
      ''umask 022'',
      ''export PATH='' @ in_dq ''/usr/local/sbin:/usr/local/bin:/usr/sbin:/usr/bin:/sbin:/bin'',
      ''unset BASH_ENV ENV'',
      ''exec /usr/bin/bash -s'']"

text \<open>The text of the install script handed to the root pipeline.\<close>

definition policy_script :: "string \<Rightarrow> string \<Rightarrow> string" where
  "policy_script description message = join nl
     [''set -euo pipefail'',
      ''run_root_sh <<'' @ sq @ ''EOS'' @ sq,
      ''mkdir -p /usr/share/polkit-1/actions'',
      ''mkdir -p /usr/libexec'',
      ''cat > '' @ shlex_quote RUNROOT_WRAPPER_PATH @ '' <<'' @ sq @ ''EOF'' @ sq,
      wrapper_content,
      ''EOF'',
      ''chmod 0755 '' @ shlex_quote RUNROOT_WRAPPER_PATH,
      ''chown root:root '' @ shlex_quote RUNROOT_WRAPPER_PATH @ '' || true'',
      ''cat > '' @ shlex_quote RUNROOT_POLICY_PATH @ '' <<'' @ sq @ ''EOF'' @ sq,
      policy_content description message,
      ''EOF'',
      ''chmod 0644 '' @ shlex_quote RUNROOT_POLICY_PATH @ '' || true'',
      ''EOS''] @ nl"

subsection \<open>The files the two shell texts touch\<close>

text \<open>
  A regular file is its bytes and its permission bits; the file system maps a path to
  the regular file there, if any. Directories and ownership are not part of the model:
  the two files are made by root under \<^verbatim>\<open>/usr\<close>, and the application, which calls
  \<^verbatim>\<open>_ensure_polkit_policy\<close> only when it is not root, reads their permission through
  the bits for others.
\<close>

record regular_file =
  content :: string
  mode :: nat

type_synonym filesystem = "string \<Rightarrow> regular_file option"

text \<open>A here-document with a quoted delimiter yields its body, unexpanded, and a line feed.\<close>

definition heredoc :: "string \<Rightarrow> string" where
  "heredoc body = body @ nl"

text \<open>
  \<^verbatim>\<open>cat > path\<close> fed with \<open>bytes\<close>: an existing file is truncated and keeps its
  mode, a new one gets 0644 (the umask is 022).
\<close>

definition cat_to :: "string \<Rightarrow> string \<Rightarrow> filesystem \<Rightarrow> filesystem" where
  "cat_to path bytes fs =
     fs(path \<mapsto> \<lparr>content = bytes, mode = (case fs path of None \<Rightarrow> 420 | Some f \<Rightarrow> mode f)\<rparr>)"

definition chmod :: "nat \<Rightarrow> string \<Rightarrow> filesystem \<Rightarrow> filesystem" where
  "chmod m path fs = (case fs path of None \<Rightarrow> fs | Some f \<Rightarrow> fs(path \<mapsto> f\<lparr>mode := m\<rparr>))"

text \<open>The tests \<^verbatim>\<open>[ -f path ]\<close> and \<^verbatim>\<open>[ -x path ]\<close>, and \<^verbatim>\<open>cmp -s path <(...)\<close>.\<close>

definition test_f :: "filesystem \<Rightarrow> string \<Rightarrow> bool" where
  "test_f fs path = (fs path \<noteq> None)"

definition test_x :: "filesystem \<Rightarrow> string \<Rightarrow> bool" where
  "test_x fs path = (case fs path of None \<Rightarrow> False | Some f \<Rightarrow> odd (mode f))"

definition cmp_s :: "filesystem \<Rightarrow> string \<Rightarrow> string \<Rightarrow> bool" where
  "cmp_s fs path bytes = (case fs path of None \<Rightarrow> False | Some f \<Rightarrow> content f = bytes)"

text \<open>
  Whether \<^verbatim>\<open>check_cmd\<close> exits with status 0. The command is
  \<^verbatim>\<open>[ -f POLICY ] && [ -x WRAPPER ] && cmp -s WRAPPER <(cat <<'EOF' ... EOF) && cmp -s POLICY <(cat <<'EOF' ... EOF)\<close>
  with the wrapper text and the policy text as the two here-documents.
\<close>

definition check_cmd_succeeds :: "string \<Rightarrow> string \<Rightarrow> filesystem \<Rightarrow> bool" where
  "check_cmd_succeeds description message fs =
     (test_f fs RUNROOT_POLICY_PATH \<and> test_x fs RUNROOT_WRAPPER_PATH
      \<and> cmp_s fs RUNROOT_WRAPPER_PATH (heredoc wrapper_content)
      \<and> cmp_s fs RUNROOT_POLICY_PATH (heredoc (policy_content description message)))"

text \<open>
  What the install script leaves on the file system once its root pipeline has run to the
  end: the two \<^verbatim>\<open>cat\<close> and the two \<^verbatim>\<open>chmod\<close> commands, in the order of the script
  (0755 is 493 and 0644 is 420).
\<close>

definition policy_script_effect :: "string \<Rightarrow> string \<Rightarrow> filesystem \<Rightarrow> filesystem" where
  "policy_script_effect description message fs =
     chmod 420 RUNROOT_POLICY_PATH
       (cat_to RUNROOT_POLICY_PATH (heredoc (policy_content description message))
          (chmod 493 RUNROOT_WRAPPER_PATH
             (cat_to RUNROOT_WRAPPER_PATH (heredoc wrapper_content) fs)))"

subsection \<open>The method\<close>

record machine =
  policy_installing :: bool
  disk :: filesystem

text \<open>
  \<^verbatim>\<open>_ensure_polkit_policy\<close>: nothing when an install is under way; otherwise the flag
  is raised, the check runs, the pipeline is launched (with \<^verbatim>\<open>need_root=True\<close> and
  \<^verbatim>\<open>ensure_policy=False\<close>) only when the check fails, and the flag is lowered in the
  \<^verbatim>\<open>finally\<close> block. The method itself writes no file; the launched pipeline does.
\<close>

definition ensure_polkit_policy ::
    "string \<Rightarrow> string \<Rightarrow> machine \<Rightarrow> machine \<times> ui_event list" where
  "ensure_polkit_policy description message st =
     (if policy_installing st then (st, [])
      else if check_cmd_succeeds description message (disk st)
        then (st\<lparr>policy_installing := False\<rparr>, [])
      else (st\<lparr>policy_installing := False\<rparr>,
            [Run_pipeline (policy_script description message) True False]))"

text \<open>
  The machine after a call of the method, once the pipeline the call launched (if it
  launched one) has put its files on disk.
\<close>

definition pipeline_done :: "string \<Rightarrow> string \<Rightarrow> machine \<times> ui_event list \<Rightarrow> machine" where
  "pipeline_done description message r =
     (if snd r = [] then fst r
      else (fst r)\<lparr>disk := policy_script_effect description message (disk (fst r))\<rparr>)"

section \<open>Choosing the source: the tail of \<^verbatim>\<open>handle_action\<close>\<close>

text \<open>
  What the install flow reads from its surroundings besides the package database:
  \<^verbatim>\<open>shutil.which\<close> (taken not to change during one click), whether the Flathub
  remote is configured, the user's answer to each \<^verbatim>\<open>_confirm\<close> dialog, and the local
  function \<^verbatim>\<open>_script_with_optional_gstreamer\<close> of the clicked item.
\<close>

record environment =
  which :: "string \<Rightarrow> bool"
  flathub_remote_present :: bool
  confirm :: "message \<Rightarrow> message \<Rightarrow> bool"
  script_with_optional_gstreamer :: "string \<Rightarrow> string"

text \<open>Truth value of an \<^verbatim>\<open>Optional[str]\<close>.\<close>

definition truthy :: "string option \<Rightarrow> bool" where
  "truthy s = (case s of None \<Rightarrow> False | Some v \<Rightarrow> v \<noteq> [])"

definition pick_pkg_manager :: "environment \<Rightarrow> string option" where
  "pick_pkg_manager e = find (which e) [''pamac'', ''pacman'', ''paru'', ''yay'']"

text \<open>The shell line \<^verbatim>\<open>expect_yes_pac "run_root \"<cmd>\""\<close>.\<close>

definition expect_yes_pac_run_root :: "string \<Rightarrow> string" where
  "expect_yes_pac_run_root cmd =
     ''expect_yes_pac '' @ dq @ ''run_root '' @ bsl @ dq @ cmd @ bsl @ dq @ dq"

definition build_install_script ::
    "app \<Rightarrow> environment \<Rightarrow> string list \<Rightarrow> string list \<Rightarrow> string option" where
  "build_install_script self e official aur =
     (let mgr = (if truthy (pkg_manager self) then pkg_manager self else pick_pkg_manager e)
      in case mgr of
           None \<Rightarrow> None
         | Some m \<Rightarrow>
             if m = [] then None
             else
               (let lines =
                      [''set -euo pipefail'']
                      @ (if official \<noteq> [] then
                           (let pkgs = join '' '' (map shlex_quote official)
                            in if m = ''pamac''
                                 then [expect_yes_pac_run_root (''pamac install '' @ pkgs)]
                               else [expect_yes_pac_run_root (''pacman -S --needed '' @ pkgs)])
                         else [])
                in if aur \<noteq> [] then
                     (let aur_pkgs = join '' '' (map shlex_quote aur);
                          helper = (if m = ''paru'' \<or> m = ''yay'' then Some m
                                    else if which e ''paru'' then Some ''paru''
                                    else if which e ''yay'' then Some ''yay''
                                    else None)
                      in case helper of
                           Some h \<Rightarrow>
                             Some (join '' ; '' (lines @
                               [if h = ''paru''
                                  then h @ '' -S --needed --skipreview --noconfirm '' @ aur_pkgs
                                else h @ '' -S --needed --noconfirm --answerdiff None --answeredit None ''
                                       @ aur_pkgs]))
                         | None \<Rightarrow>
                             if m = ''pamac''
                               then Some (join '' ; '' (lines @
                                      [''expect_yes_pac '' @ dq @ ''pamac build --no-confirm ''
                                         @ aur_pkgs @ dq]))
                             else None)
                   else Some (join '' ; '' lines)))"

text \<open>
  \<^verbatim>\<open>_ensure_aur_helper_auto\<close>: the helper found, and the pipeline and dialog of a
  helper installation it started. The two loops over \<^verbatim>\<open>("paru", "yay")\<close> are unrolled.
\<close>

definition helper_install_started :: "string \<Rightarrow> string \<Rightarrow> ui_event list" where
  "helper_install_started script cand =
     [Run_pipeline script True True, Info_dialog AUR (Instalacao_de_helper_iniciada cand)]"

definition ensure_aur_helper_auto :: "environment \<Rightarrow> shell \<Rightarrow> string option \<times> ui_event list" where
  "ensure_aur_helper_auto e sh =
     (if which e ''paru'' then (Some ''paru'', [])
      else if which e ''yay'' then (Some ''yay'', [])
      else if returncode sh (''pacman -Si '' @ shlex_quote ''paru'' @ '' >/dev/null 2>&1'') = 0
        then (None, helper_install_started
                (expect_yes_pac_run_root (''pacman -S --needed '' @ shlex_quote ''paru'')) ''paru'')
      else if returncode sh (''pacman -Si '' @ shlex_quote ''yay'' @ '' >/dev/null 2>&1'') = 0
        then (None, helper_install_started
                (expect_yes_pac_run_root (''pacman -S --needed '' @ shlex_quote ''yay'')) ''yay'')
      else if which e ''pamac''
        then (None, helper_install_started
                (expect_yes_pac_run_root (''pamac build --no-confirm '' @ shlex_quote ''paru'')) ''paru'')
      else (None, []))"

text \<open>
  \<^verbatim>\<open>_ensure_flathub\<close>: its result, and the pipeline that adds the remote when it is
  missing.
\<close>

definition ensure_flathub :: "environment \<Rightarrow> bool \<times> ui_event list" where
  "ensure_flathub e =
     (if \<not> which e ''flatpak'' then (False, [])
      else if \<not> flathub_remote_present e
        then (True, [Run_pipeline
               (''set -euo pipefail; flatpak remote-add --if-not-exists flathub ''
                  @ ''https://flathub.org/repo/flathub.flatpakrepo'') False True])
      else (True, []))"

text \<open>
  The body shared, line for line, by the branch \<^verbatim>\<open>if official:\<close> and the branch
  \<^verbatim>\<open>else:\<close>; the two differ in \<open>need_helper\<close> and in the lists handed to
  \<^verbatim>\<open>_build_install_script\<close>.
\<close>

definition install_with_script ::
    "app \<Rightarrow> environment \<Rightarrow> shell \<Rightarrow> bool \<Rightarrow> string list \<Rightarrow> string list \<Rightarrow> string list
      \<Rightarrow> ui_event list" where
  "install_with_script self e sh need_helper official aur to_install =
     (let (aborted, shown) =
            (if need_helper then
               (let (helper, started) = ensure_aur_helper_auto e sh
                in if helper = None \<and> pkg_manager self \<noteq> Some ''pamac''
                     then (True, started @ [Error_dialog AUR_helper_ausente
                                              Instalacao_abortada_por_falta_de_helper_AUR])
                   else (False, started))
             else (False, []))
      in if aborted then shown
         else (case build_install_script self e official aur of
                 None \<Rightarrow> shown @ [Error_dialog Instalacao Nao_foi_possivel_construir_o_script]
               | Some script0 \<Rightarrow>
                   if script0 = []
                     then shown @ [Error_dialog Instalacao Nao_foi_possivel_construir_o_script]
                   else
                     (let script = script_with_optional_gstreamer e script0;
                          pkgs_str = join '' '' to_install
                      in if confirm e Confirmar (Instalar_pacotes pkgs_str)
                           then shown @ [Confirm_dialog Confirmar (Instalar_pacotes pkgs_str),
                                         Run_pipeline script True True]
                         else shown @ [Confirm_dialog Confirmar (Instalar_pacotes pkgs_str)])))"

definition no_aur_helper :: "app \<Rightarrow> environment \<Rightarrow> bool" where
  "no_aur_helper self e =
     (pkg_manager self \<notin> {Some ''paru'', Some ''yay'', Some ''pamac''}
      \<and> \<not> (which e ''paru'' \<or> which e ''yay''))"

definition install_official ::
    "app \<Rightarrow> environment \<Rightarrow> shell \<Rightarrow> string list \<Rightarrow> string list \<Rightarrow> string list \<Rightarrow> ui_event list" where
  "install_official self e sh official aur to_install =
     install_with_script self e sh (aur \<noteq> [] \<and> no_aur_helper self e) official aur to_install"

definition install_flatpak :: "environment \<Rightarrow> string \<Rightarrow> string \<Rightarrow> ui_event list" where
  "install_flatpak e label flatpak_id =
     (let script = ''set -euo pipefail; flatpak install -y --or-update flathub ''
                     @ shlex_quote flatpak_id;
          remote = snd (ensure_flathub e)
      in if confirm e Confirmar (Instalar_via_Flatpak label)
           then remote @ [Confirm_dialog Confirmar (Instalar_via_Flatpak label),
                          Run_pipeline script False True]
         else remote @ [Confirm_dialog Confirmar (Instalar_via_Flatpak label)])"

definition install_aur_only ::
    "app \<Rightarrow> environment \<Rightarrow> shell \<Rightarrow> string list \<Rightarrow> ui_event list" where
  "install_aur_only self e sh to_install =
     install_with_script self e sh (no_aur_helper self e) [] to_install to_install"

text \<open>
  The selection itself, from \<^verbatim>\<open>official, aur = self._split_official_aur(to_install)\<close>
  to the end of the \<^verbatim>\<open>if\<close>/\<^verbatim>\<open>elif\<close>/\<^verbatim>\<open>else\<close>. The result names the branch taken
  and lists its events.
\<close>

datatype source = Official_repo | Flatpak | Aur_only

definition install_missing ::
    "app \<Rightarrow> environment \<Rightarrow> shell \<Rightarrow> string \<Rightarrow> string option \<Rightarrow> string list
      \<Rightarrow> source \<times> ui_event list" where
  "install_missing self e sh label flatpak_id to_install =
     (let (official, aur) = split_official_aur sh to_install
      in if official \<noteq> []
           then (Official_repo, install_official self e sh official aur to_install)
         else if truthy flatpak_id \<and> which e ''flatpak''
           then (Flatpak, install_flatpak e label (the flatpak_id))
         else (Aur_only, install_aur_only self e sh to_install))"

section \<open>Proofs\<close>

subsection \<open>Decimal rendering and parsing\<close>

lemma digits_table: "\<forall>d \<in> set [0..<10]. digit_val (digit_char d) = Some d"
  by code_simp

lemma digit_val_digit_char: "d < 10 \<Longrightarrow> digit_val (digit_char d) = Some d"
  using digits_table by simp

lemma digit_char_not_minus: "d < 10 \<Longrightarrow> digit_char d \<noteq> CHR ''-''"
proof
  assume "d < 10" and "digit_char d = CHR ''-''"
  then have "digit_val (CHR ''-'') = Some d" using digit_val_digit_char by metis
  then show False by (simp add: digit_val_def)
qed

lemma parse_digits_snoc:
  "parse_digits acc (cs @ [c]) =
     (case parse_digits acc cs of None \<Rightarrow> None
      | Some n \<Rightarrow> (case digit_val c of None \<Rightarrow> None | Some d \<Rightarrow> Some (n * 10 + d)))"
  by (induction cs arbitrary: acc) (simp_all split: option.splits)

lemma parse_digits_str_nat: "parse_digits 0 (str_nat n) = Some n"
proof (induction n rule: str_nat.induct)
  case (1 n)
  show ?case
  proof (cases "n < 10")
    case True
    then show ?thesis
      by (subst str_nat.simps) (simp add: digit_val_digit_char)
  next
    case False
    with 1 have ih: "parse_digits 0 (str_nat (n div 10)) = Some (n div 10)" by simp
    have "n mod 10 < 10" by simp
    then have dv: "digit_val (digit_char (n mod 10)) = Some (n mod 10)"
      by (rule digit_val_digit_char)
    from False show ?thesis
      by (subst str_nat.simps) (simp add: parse_digits_snoc ih dv)
  qed
qed

lemma str_nat_not_Nil: "str_nat n \<noteq> []"
  by (subst str_nat.simps) simp

lemma parse_nat_str_nat: "parse_nat (str_nat n) = Some n"
  by (simp add: parse_nat_def str_nat_not_Nil parse_digits_str_nat)

lemma str_nat_inject: "str_nat m = str_nat n \<Longrightarrow> m = n"
  by (metis parse_nat_str_nat option.inject)

lemma str_nat_no_minus: "CHR ''-'' \<notin> set (str_nat n)"
proof (induction n rule: str_nat.induct)
  case (1 n)
  have last_ok: "digit_char (n mod 10) \<noteq> CHR ''-''"
    by (rule digit_char_not_minus) simp
  show ?case
  proof (cases "n < 10")
    case True
    then have "digit_char n \<noteq> CHR ''-''" by (rule digit_char_not_minus)
    with True show ?thesis by (subst str_nat.simps) auto
  next
    case False
    with 1 have "CHR ''-'' \<notin> set (str_nat (n div 10))" by simp
    with last_ok False show ?thesis by (subst str_nat.simps) auto
  qed
qed

lemma str_int_inject: "str_int i = str_int j \<Longrightarrow> i = j"
proof -
  assume eq: "str_int i = str_int j"
  have hd_neg: "\<And>k. k < 0 \<Longrightarrow> CHR ''-'' \<in> set (str_int k)" by (simp add: str_int_def)
  have nn: "\<And>k. 0 \<le> k \<Longrightarrow> CHR ''-'' \<notin> set (str_int k)" by (simp add: str_int_def str_nat_no_minus)
  show ?thesis
  proof (cases "i < 0")
    case True
    then have "j < 0" using eq hd_neg nn by (metis not_less)
    with True eq have "str_nat (nat (- i)) = str_nat (nat (- j))" by (simp add: str_int_def)
    then have "nat (- i) = nat (- j)" by (rule str_nat_inject)
    with True \<open>j < 0\<close> show ?thesis by simp
  next
    case False
    then have "\<not> j < 0" using eq hd_neg nn by (metis not_less)
    with False eq have "str_nat (nat i) = str_nat (nat j)" by (simp add: str_int_def)
    then have "nat i = nat j" by (rule str_nat_inject)
    with False \<open>\<not> j < 0\<close> show ?thesis by simp
  qed
qed



lemma parse_size_label_zram_size_str:
  "0 \<le> s \<Longrightarrow> parse_size_label (zram_size_str s) = Some (nat s * 1048576)"
proof -
  assume s: "0 \<le> s"
  show ?thesis
  proof (cases "s mod 1024 = 0")
    case True
    then have "s = (s div 1024) * 1024"
      using div_mult_mod_eq [of s 1024] by simp
    then have "nat s = nat ((s div 1024) * 1024)" by simp
    also have "\<dots> = nat (s div 1024) * 1024" using s by (simp add: nat_mult_distrib)
    finally have n: "nat s = nat (s div 1024) * 1024" .
    from s have nn: "0 \<le> s div 1024" by simp
    have "parse_size_label (zram_size_str s) = Some (nat (s div 1024) * 1073741824)"
      using True nn by (simp add: parse_size_label_def zram_size_str_def str_int_def parse_nat_str_nat)
    also have "nat (s div 1024) * 1073741824 = nat s * 1048576" by (subst n) simp
    finally show ?thesis .
  next
    case False
    then show ?thesis using s
      by (simp add: parse_size_label_def zram_size_str_def str_int_def parse_nat_str_nat)
  qed
qed

lemma round_256: "256 \<le> max 256 ((x div 256) * 256)" "max 256 ((x div 256) * 256) mod 256 = (0::int)"
  by (simp_all add: max_def)

lemma round_256_le: "(x::int) \<le> y \<Longrightarrow> max 256 ((x div 256) * 256) \<le> max 256 y"
proof -
  assume "x \<le> y"
  have "(x div 256) * 256 \<le> x" by simp
  with \<open>x \<le> y\<close> show ?thesis by simp
qed

lemma zram_size_mib_ge: "256 \<le> zram_size_mib ram"
  by (simp add: zram_size_mib_def Let_def)

lemma zram_size_mib_aligned: "zram_size_mib ram mod 256 = 0"
  unfolding zram_size_mib_def Let_def by (rule round_256(2))

lemma zram_base_le: "(if ram \<le> 4096 then ram
         else if ram \<le> 8192 then int_mul_075 ram
         else if ram \<le> 16384 then ram div 2
         else if ram \<le> 65536 then 8192
         else 16384) \<le> ram"
proof -
  have a: "0 \<le> ram \<Longrightarrow> ram * 3 div 4 \<le> ram" by linarith
  have b: "0 \<le> ram \<Longrightarrow> ram div 2 \<le> ram" by linarith
  show ?thesis using a b by (simp add: int_mul_075_def)
qed

lemma zram_size_mib_le: "zram_size_mib ram \<le> max 256 ram"
  unfolding zram_size_mib_def Let_def by (rule round_256_le [OF zram_base_le])


lemma floor_three_quarters: "\<lfloor>3 * real_of_int r / 4\<rfloor> = (r * 3) div 4"
proof -
  have "3 * real_of_int r / 4 = real_of_int (r * 3) / real_of_int 4" by simp
  then show ?thesis
    by (simp only: floor_divide_of_int_eq)
qed

lemma spec_base_size_eq:
  "spec_base_size ram =
     (if ram \<le> 4096 then ram
      else if ram \<le> 8192 then int_mul_075 ram
      else if ram \<le> 16384 then ram div 2
      else if ram \<le> 65536 then 8192
      else 16384)"
  by (simp add: spec_base_size_def floor_three_quarters int_mul_075_def)

lemma spec_round_256_eq: "spec_round_256 s = max 256 ((s div 256) * 256)"
  by (simp add: spec_round_256_def Let_def max_def minus_mod_eq_div_mult)

lemma spec_size_eq: "spec_size ram = zram_size_mib ram"
  by (simp add: spec_size_def zram_size_mib_def Let_def spec_base_size_eq spec_round_256_eq)

lemma spec_label_eq: "spec_label n = zram_size_str n"
  by (simp add: spec_label_def zram_size_str_def dvd_eq_mod_eq_0)

text \<open>
  C1. For every \<open>ram_mib\<close> and \<open>cores\<close> (positive or not),
  \<^verbatim>\<open>_choose_zram_params\<close> returns the label of the size given by the
  specification's table (identity up to 4096, the integer part of three quarters up to
  8192, half up to 16384, then 8192 up to 65536, else 16384; rounded down to a multiple
  of 256 and never below 256), the compression \<^verbatim>\<open>lzo-rle\<close> / \<^verbatim>\<open>lz4\<close> /
  \<^verbatim>\<open>zstd\<close> by core count, and the swappiness 100 / 80 / 60 by memory.
\<close>

theorem choose_zram_params_table:
  "choose_zram_params ram cores =
     (spec_label (spec_size ram), spec_compression cores, spec_swappiness ram)"
  by (simp add: choose_zram_params_def Let_def spec_size_eq spec_label_eq
      spec_compression_def spec_swappiness_def)

text \<open>
  C2, as stated, fails on a machine with less than 256 MiB: with 100 MiB and 4 cores the
  label is \<^verbatim>\<open>256M\<close>, which reads back as more bytes than the machine has.
\<close>

theorem zram_label_exceeds_small_ram:
  "\<not> label_in_range (fst (choose_zram_params 100 4)) 100"
proof -
  have size: "zram_size_mib 100 = 256" by (simp add: zram_size_mib_def)
  have "parse_size_label (zram_size_str 256) = Some (nat 256 * 1048576)"
    by (rule parse_size_label_zram_size_str) simp
  then have "parse_size_label (fst (choose_zram_params 100 4)) = Some 268435456"
    by (simp add: choose_zram_params_def Let_def size)
  then show ?thesis by (simp add: label_in_range_def)
qed

text \<open>
  C2, amended. \<^verbatim>\<open>_choose_zram_params\<close> is a function of the two probed values
  alone, and for all of them the label reads back as a byte count that is a multiple of
  256 MiB, at least 256 MiB, and at most the larger of 256 MiB and \<open>ram_mib\<close> MiB.
\<close>

theorem zram_label_in_range:
  "label_in_range (fst (choose_zram_params ram cores)) (max 256 ram)"
proof -
  let ?s = "zram_size_mib ram"
  have ge: "256 \<le> ?s" by (rule zram_size_mib_ge)
  then have nn: "0 \<le> ?s" by simp
  have parse: "parse_size_label (fst (choose_zram_params ram cores)) = Some (nat ?s * 1048576)"
    using parse_size_label_zram_size_str [OF nn] by (simp add: choose_zram_params_def Let_def)
  from ge have lo: "268435456 \<le> nat ?s * 1048576" by linarith
  have "?s \<le> max 256 ram" by (rule zram_size_mib_le)
  with nn have hi: "int (nat ?s * 1048576) \<le> max 256 ram * 1048576" by simp
  have "?s mod 256 = 0" by (rule zram_size_mib_aligned)
  then have "256 dvd ?s" by presburger
  with nn have "256 dvd nat ?s"
    by (metis int_dvd_int_iff nat_0_le of_nat_numeral)
  then obtain k where "nat ?s = 256 * k" by (rule dvdE)
  then have al: "(nat ?s * 1048576) mod 268435456 = 0" by simp
  show ?thesis
    unfolding label_in_range_def parse using lo hi al by simp
qed

subsection \<open>Package lists\<close>

lemma filter_nonempty_all_empty:
  "list_all (\<lambda>p. p = []) pkgs \<Longrightarrow> filter (\<lambda>p. p \<noteq> []) pkgs = []"
  by (induction pkgs) simp_all

text \<open>
  Claim C10. When every name of the input is the empty string (the empty input
  included), \<^verbatim>\<open>_missing_packages\<close> returns the empty list and \<^verbatim>\<open>_any_installed\<close>
  returns False, and neither hands a command to the shell.
\<close>

theorem no_names_no_query:
  "list_all (\<lambda>p. p = []) pkgs \<Longrightarrow>
     missing_packages sh pkgs = ([], []) \<and> any_installed sh pkgs = (False, [])"
  by (simp add: missing_packages_def any_installed_def filter_nonempty_all_empty)

theorem no_names_no_query_witness:
  "list_all (\<lambda>p. p = []) ['''', ''''] \<and>
   missing_packages \<lparr>check_output = (\<lambda>c. Output ''wine''), returncode = (\<lambda>c. 1)\<rparr> ['''', '''']
     = ([], []) \<and>
   any_installed \<lparr>check_output = (\<lambda>c. Output ''wine''), returncode = (\<lambda>c. 1)\<rparr> ['''', '''']
     = (False, [])"
  using no_names_no_query
    [of "['''', '''']" "\<lparr>check_output = (\<lambda>c. Output ''wine''), returncode = (\<lambda>c. 1)\<rparr>"]
  by simp

lemma resolve_loop_unavailable:
  "\<not> pkg_in_official_repos_cached sh ''vkd3d-proton'' \<Longrightarrow>
     resolve_loop sh pkgs resolved =
       resolved @ map (\<lambda>p. if p = ''vkd3d-proton'' then ''vkd3d-proton-bin'' else p) pkgs"
  by (induction pkgs arbitrary: resolved) simp_all

text \<open>
  Claim C9. When \<^verbatim>\<open>vkd3d-proton\<close> is not in the official repositories,
  \<^verbatim>\<open>_resolve_virtual_pkgs\<close> returns the input with every occurrence of that name
  replaced by \<^verbatim>\<open>vkd3d-proton-bin\<close>, all other names kept in place; the name
  \<^verbatim>\<open>vkd3d-proton\<close> does not occur in the result.
\<close>

theorem virtual_name_replaced_by_fallback:
  assumes "\<not> pkg_in_official_repos_cached sh ''vkd3d-proton''"
  shows "resolve_virtual_pkgs sh pkgs =
           map (\<lambda>p. if p = ''vkd3d-proton'' then ''vkd3d-proton-bin'' else p) pkgs
         \<and> ''vkd3d-proton'' \<notin> set (resolve_virtual_pkgs sh pkgs)"
proof -
  have eq: "resolve_virtual_pkgs sh pkgs =
      map (\<lambda>p. if p = ''vkd3d-proton'' then ''vkd3d-proton-bin'' else p) pkgs"
    using assms by (simp add: resolve_virtual_pkgs_def resolve_loop_unavailable)
  have "''vkd3d-proton'' \<notin>
      set (map (\<lambda>p. if p = ''vkd3d-proton'' then ''vkd3d-proton-bin'' else p) pkgs)"
    by (induction pkgs) simp_all
  with eq show ?thesis by simp
qed

theorem virtual_name_replaced_by_fallback_witness:
  "\<not> pkg_in_official_repos_cached
       \<lparr>check_output = (\<lambda>c. OtherException), returncode = (\<lambda>c. 1)\<rparr> ''vkd3d-proton''
   \<and> resolve_virtual_pkgs \<lparr>check_output = (\<lambda>c. OtherException), returncode = (\<lambda>c. 1)\<rparr>
         [''wine'', ''vkd3d-proton'', ''dxvk'']
       = [''wine'', ''vkd3d-proton-bin'', ''dxvk'']"
  using virtual_name_replaced_by_fallback
    [of "\<lparr>check_output = (\<lambda>c. OtherException), returncode = (\<lambda>c. 1)\<rparr>"
        "[''wine'', ''vkd3d-proton'', ''dxvk'']"]
  by (simp add: pkg_in_official_repos_cached_def)

lemma split_loop_filter:
  "split_loop S pkgs official aur =
     (official @ filter (\<lambda>p. p \<in> S) pkgs, aur @ filter (\<lambda>p. p \<notin> S) pkgs)"
  by (induction pkgs arbitrary: official aur) simp_all

lemma split_official_aur_filter:
  "split_official_aur sh pkgs =
     (filter (\<lambda>p. p \<in> which_in_official_repos sh pkgs) pkgs,
      filter (\<lambda>p. p \<notin> which_in_official_repos sh pkgs) pkgs)"
  by (simp add: split_official_aur_def split_loop_filter Let_def)

lemma mset_filter_partition:
  "mset (filter P xs) + mset (filter (\<lambda>x. \<not> P x) xs) = mset xs"
  by (induction xs) simp_all

text \<open>
  Claim C4. \<^verbatim>\<open>_split_official_aur\<close> puts every input name in exactly one of its two
  lists: each list is a subsequence of the input (the input order is kept), the two
  lists together hold the input's names with their multiplicities, and no name is in
  both lists. This holds for every input, with or without duplicate names.
\<close>

theorem split_official_aur_partition:
  "set (fst (split_official_aur sh pkgs)) \<union> set (snd (split_official_aur sh pkgs)) = set pkgs
   \<and> set (fst (split_official_aur sh pkgs)) \<inter> set (snd (split_official_aur sh pkgs)) = {}
   \<and> mset (fst (split_official_aur sh pkgs)) + mset (snd (split_official_aur sh pkgs)) = mset pkgs
   \<and> subseq (fst (split_official_aur sh pkgs)) pkgs
   \<and> subseq (snd (split_official_aur sh pkgs)) pkgs"
proof -
  have "set (fst (split_official_aur sh pkgs)) \<union> set (snd (split_official_aur sh pkgs)) = set pkgs"
    by (auto simp add: split_official_aur_filter)
  moreover have "set (fst (split_official_aur sh pkgs)) \<inter> set (snd (split_official_aur sh pkgs)) = {}"
    by (auto simp add: split_official_aur_filter)
  moreover have "mset (fst (split_official_aur sh pkgs)) + mset (snd (split_official_aur sh pkgs))
      = mset pkgs"
    by (simp add: split_official_aur_filter mset_filter_partition)
  moreover have "subseq (fst (split_official_aur sh pkgs)) pkgs"
    by (simp add: split_official_aur_filter)
  moreover have "subseq (snd (split_official_aur sh pkgs)) pkgs"
    by (simp add: split_official_aur_filter)
  ultimately show ?thesis by simp
qed

subsection \<open>Sentinel paths\<close>

lemma sentinel_path_inject: "sentinel_path pid a = sentinel_path pid b \<Longrightarrow> a = b"
  by (simp add: sentinel_path_def str_int_inject)

lemma sentinel_path_inj: "inj (sentinel_path pid)"
  by (rule injI) (rule sentinel_path_inject)

text \<open>
  Claim C5, as the specification states it, fails: two invocations of one process that
  read the same millisecond get the same sentinel path.
\<close>

theorem sentinel_paths_collide_in_same_millisecond:
  "\<not> distinct (sentinel_paths 4242 [1762214400123, 1762214400123])"
  by (simp add: sentinel_paths_def)

text \<open>
  Claim C5, amended. Within one process the sentinel paths of a run of invocations are
  pairwise different exactly when their millisecond readings are pairwise different.
\<close>

theorem sentinel_paths_distinct_iff:
  "distinct (sentinel_paths pid readings) = distinct readings"
  by (simp add: sentinel_paths_def distinct_map sentinel_path_inj inj_on_subset [OF _ subset_UNIV])

subsection \<open>The sentinel watcher\<close>

lemma poll_sentinel_absent: "poll_sentinel (\<lambda>t. False) deadline now = False"
proof (induction "deadline - now" arbitrary: now)
  case 0
  then show ?case by (subst poll_sentinel.simps) simp
next
  case (Suc k)
  then have "k = deadline - (now + 1)" by simp
  then have "poll_sentinel (\<lambda>t. False) deadline (now + 1) = False" by (rule Suc.hyps(1))
  then show ?case by (subst poll_sentinel.simps) simp
qed

text \<open>
  Claim C8 does not hold of the code. When the sentinel file is never there, the loop
  ends at the deadline and the \<^verbatim>\<open>finally\<close> block still queues the information dialog
  ``Processo finalizado.'' (after restoring the window when asked to): the watcher does
  not give up silently.
\<close>

theorem watcher_timeout_shows_finished_dialog:
  "wait_sentinel_then_notify (\<lambda>t. False) start sentinel restore_window =
     (if restore_window then [Deiconify, Present] else [])
       @ [Info_dialog Instalacao Processo_finalizado]"
  by (simp add: wait_sentinel_then_notify_def poll_sentinel_absent)

subsection \<open>The compatibility gate\<close>

text \<open>
  Claim C6, as the specification states it, fails: with a GPU vendor list that holds no
  \<^verbatim>\<open>nvidia\<close> entry but a loaded \<^verbatim>\<open>nvidia\<close> kernel module, the request is not
  blocked and the rest of \<^verbatim>\<open>handle_action\<close> runs.
\<close>

theorem nvidia_module_passes_gate:
  "''nvidia'' \<notin> set (detect_gpu_vendors
       \<lparr>gpu_vendors_from_lspci = [''intel''], gpu_vendors_from_sysfs = [],
        gpu_modules_present = [''nvidia''], detect_cpu_vendor = ''intel''\<rparr>)
   \<and> handle_action
        \<lparr>pkg_manager = Some ''pacman'', cpu_vendor = ''intel'', gpu_vendors = [''intel'']\<rparr>
        \<lparr>gpu_vendors_from_lspci = [''intel''], gpu_vendors_from_sysfs = [],
         gpu_modules_present = [''nvidia''], detect_cpu_vendor = ''intel''\<rparr>
        ''nvidia-driver'' [] [Run_pipeline ''set -euo pipefail'' True True]
      = [Run_pipeline ''set -euo pipefail'' True True]"
  by (simp add: handle_action_def block_incompatible_def detect_gpu_vendors_def)

text \<open>
  Claim C6, amended. The GPU vendor list the gate uses is the one cached at start-up,
  or, when that one is empty, the one \<^verbatim>\<open>detect_gpu_vendors\<close> returns now. When the
  NVIDIA capability is requested and \<^verbatim>\<open>nvidia\<close> is neither in that list nor among
  the vendors of the loaded kernel modules, \<^verbatim>\<open>handle_action\<close> shows the
  hardware-incompatibility error and does nothing else, whatever the rest of the method
  would have done. In every other case, a loaded \<^verbatim>\<open>nvidia\<close> module alone included,
  the request passes the gate and the rest of the method runs.
\<close>

theorem nvidia_request_blocked:
  "handle_action self hw ''nvidia-driver'' flathub_card_flow rest =
     (if ''nvidia'' \<in> set (if gpu_vendors self \<noteq> [] then gpu_vendors self
                             else detect_gpu_vendors hw)
         \<or> ''nvidia'' \<in> set (gpu_modules_present hw)
      then rest
      else [Error_dialog Hardware_incompativel Nao_detectei_GPU_NVIDIA])"
  by (simp add: handle_action_def block_incompatible_def)

theorem nvidia_request_blocked_witness:
  "handle_action
     \<lparr>pkg_manager = Some ''pacman'', cpu_vendor = ''intel'', gpu_vendors = [''intel'']\<rparr>
     \<lparr>gpu_vendors_from_lspci = [''nvidia'', ''intel''], gpu_vendors_from_sysfs = [],
      gpu_modules_present = [''intel''], detect_cpu_vendor = ''intel''\<rparr>
     ''nvidia-driver'' [] [Run_pipeline ''set -euo pipefail'' True True]
   = [Error_dialog Hardware_incompativel Nao_detectei_GPU_NVIDIA]"
  using nvidia_request_blocked
    [of "\<lparr>pkg_manager = Some ''pacman'', cpu_vendor = ''intel'', gpu_vendors = [''intel'']\<rparr>"
        "\<lparr>gpu_vendors_from_lspci = [''nvidia'', ''intel''], gpu_vendors_from_sysfs = [],
          gpu_modules_present = [''intel''], detect_cpu_vendor = ''intel''\<rparr>"
        "[]" "[Run_pipeline ''set -euo pipefail'' True True]"]
  by simp

subsection \<open>The polkit policy\<close>

lemma runroot_paths_differ: "RUNROOT_WRAPPER_PATH \<noteq> RUNROOT_POLICY_PATH"
  by (simp add: RUNROOT_WRAPPER_PATH_def RUNROOT_POLICY_PATH_def)

lemma check_after_script:
  "check_cmd_succeeds description message (policy_script_effect description message fs)"
  using runroot_paths_differ
  by (simp add: check_cmd_succeeds_def policy_script_effect_def test_f_def test_x_def cmp_s_def
      chmod_def cat_to_def)

lemma ensure_polkit_policy_launches_when_stale:
  "\<not> policy_installing st \<Longrightarrow> \<not> check_cmd_succeeds description message (disk st) \<Longrightarrow>
     snd (ensure_polkit_policy description message st)
       = [Run_pipeline (policy_script description message) True False]"
  by (simp add: ensure_polkit_policy_def)

lemma ensure_polkit_policy_disk:
  "disk (fst (ensure_polkit_policy description message st)) = disk st"
  by (simp add: ensure_polkit_policy_def)

lemma ensure_polkit_policy_quiet:
  "policy_installing st \<or> check_cmd_succeeds description message (disk st) \<Longrightarrow>
     snd (ensure_polkit_policy description message st) = []"
  by (auto simp add: ensure_polkit_policy_def)

text \<open>
  Claim C7. Take any machine and call \<^verbatim>\<open>_ensure_polkit_policy\<close>; let the pipeline it
  launched, if any, finish. A second call with the same intended content then launches
  no pipeline and leaves every file as it was.
\<close>

theorem policy_install_idempotent:
  "snd (ensure_polkit_policy description message
          (pipeline_done description message (ensure_polkit_policy description message st))) = []
   \<and> disk (fst (ensure_polkit_policy description message
          (pipeline_done description message (ensure_polkit_policy description message st))))
       = disk (pipeline_done description message (ensure_polkit_policy description message st))"
proof -
  let ?first = "ensure_polkit_policy description message st"
  let ?st1 = "pipeline_done description message ?first"
  have "policy_installing ?st1 \<or> check_cmd_succeeds description message (disk ?st1)"
  proof (cases "policy_installing st")
    case True
    then show ?thesis by (simp add: ensure_polkit_policy_def pipeline_done_def)
  next
    case False
    show ?thesis
    proof (cases "check_cmd_succeeds description message (disk st)")
      case True
      with False show ?thesis by (simp add: ensure_polkit_policy_def pipeline_done_def)
    next
      case stale: False
      with False have "disk ?st1 = policy_script_effect description message (disk st)"
        by (simp add: ensure_polkit_policy_def pipeline_done_def)
      then show ?thesis by (simp add: check_after_script)
    qed
  qed
  then have "snd (ensure_polkit_policy description message ?st1) = []"
    by (rule ensure_polkit_policy_quiet)
  then show ?thesis by (simp add: ensure_polkit_policy_disk)
qed

subsection \<open>Choosing the source\<close>

lemma ensure_aur_helper_auto_needs_root:
  "Run_pipeline script False ensure \<notin> set (snd (ensure_aur_helper_auto e sh))"
  by (simp add: ensure_aur_helper_auto_def helper_install_started_def)

lemma install_with_script_needs_root:
  "Run_pipeline script False ensure
     \<notin> set (install_with_script self e sh need_helper official aur to_install)"
proof -
  obtain helper started where h: "ensure_aur_helper_auto e sh = (helper, started)"
    by (cases "ensure_aur_helper_auto e sh")
  have "Run_pipeline script False ensure \<notin> set started"
    using ensure_aur_helper_auto_needs_root [of script ensure e sh] h by simp
  then show ?thesis
    by (simp add: install_with_script_def h Let_def split: option.splits)
qed

lemma install_with_script_no_flatpak_dialog:
  "Confirm_dialog Confirmar (Instalar_via_Flatpak label)
     \<notin> set (install_with_script self e sh need_helper official aur to_install)"
proof -
  obtain helper started where h: "ensure_aur_helper_auto e sh = (helper, started)"
    by (cases "ensure_aur_helper_auto e sh")
  have "Confirm_dialog Confirmar (Instalar_via_Flatpak label) \<notin> set started"
    using h by (auto simp add: ensure_aur_helper_auto_def helper_install_started_def
        split: if_splits)
  then show ?thesis
    by (simp add: install_with_script_def h Let_def split: option.splits)
qed

text \<open>
  Claim C3. When the official part of the split of the missing packages is not empty,
  the selection takes the official-repository branch, whatever the Flatpak identifier,
  the presence of \<^verbatim>\<open>flatpak\<close> and the third-party part are: its events are those of
  that branch on the two parts, it asks no Flatpak confirmation and it launches no
  pipeline without root (the Flatpak branch launches no other kind). Conversely, when
  the branch taken is the Flatpak one or the AUR-only one, the official part is empty.
\<close>

theorem official_part_selects_official_repo:
  "(fst (split_official_aur sh to_install) \<noteq> [] \<longrightarrow>
      install_missing self e sh label flatpak_id to_install =
        (Official_repo,
         install_official self e sh (fst (split_official_aur sh to_install))
           (snd (split_official_aur sh to_install)) to_install)
      \<and> Confirm_dialog Confirmar (Instalar_via_Flatpak label)
           \<notin> set (snd (install_missing self e sh label flatpak_id to_install))
      \<and> Run_pipeline script False ensure
           \<notin> set (snd (install_missing self e sh label flatpak_id to_install)))
   \<and> (fst (install_missing self e sh label flatpak_id to_install) \<noteq> Official_repo \<longrightarrow>
        fst (split_official_aur sh to_install) = [])"
proof -
  obtain official aur where s: "split_official_aur sh to_install = (official, aur)"
    by (cases "split_official_aur sh to_install")
  show ?thesis
  proof (cases "official = []")
    case True
    with s show ?thesis by (simp add: install_missing_def)
  next
    case False
    with s have r: "install_missing self e sh label flatpak_id to_install =
        (Official_repo, install_official self e sh official aur to_install)"
      by (simp add: install_missing_def)
    show ?thesis
      using False
      by (simp add: r s install_official_def install_with_script_needs_root
          install_with_script_no_flatpak_dialog)
  qed
qed

lemma split_steam_example:
  "split_official_aur
     \<lparr>check_output = (\<lambda>c. Output (''steam'' @ nl)), returncode = (\<lambda>c. 1)\<rparr>
     [''steam'', ''proton-ge-custom-bin'']
   = ([''steam''], [''proton-ge-custom-bin''])"
  by (simp add: split_official_aur_def which_in_official_repos_def stripped_lines_def
      splitlines_def py_strip_def py_space_def py_linebreak_def nl_def shlex_quote_def)

theorem official_part_selects_official_repo_witness:
  "fst (split_official_aur
          \<lparr>check_output = (\<lambda>c. Output (''steam'' @ nl)), returncode = (\<lambda>c. 1)\<rparr>
          [''steam'', ''proton-ge-custom-bin'']) \<noteq> []
   \<and> fst (install_missing
        \<lparr>pkg_manager = Some ''pacman'', cpu_vendor = ''amd'', gpu_vendors = [''amd'']\<rparr>
        \<lparr>which = (\<lambda>c. True), flathub_remote_present = True, confirm = (\<lambda>t m. True),
         script_with_optional_gstreamer = (\<lambda>s. s)\<rparr>
        \<lparr>check_output = (\<lambda>c. Output (''steam'' @ nl)), returncode = (\<lambda>c. 1)\<rparr>
        ''Steam'' (Some ''com.valvesoftware.Steam'')
        [''steam'', ''proton-ge-custom-bin'']) = Official_repo"
  using official_part_selects_official_repo
    [of "\<lparr>check_output = (\<lambda>c. Output (''steam'' @ nl)), returncode = (\<lambda>c. 1)\<rparr>"
        "[''steam'', ''proton-ge-custom-bin'']"
        "\<lparr>pkg_manager = Some ''pacman'', cpu_vendor = ''amd'', gpu_vendors = [''amd'']\<rparr>"
        "\<lparr>which = (\<lambda>c. True), flathub_remote_present = True, confirm = (\<lambda>t m. True),
          script_with_optional_gstreamer = (\<lambda>s. s)\<rparr>"
        "''Steam''" "Some ''com.valvesoftware.Steam''" "[]" "True"]
    split_steam_example
  by simp

end
